theory Spec2Isabelle
  imports Complex_Main "HOL-Library.Sublist" "HOL-Library.AList"
begin

section \<open>The configuration object\<close>

text \<open>
  \<^verbatim>\<open>LUKSTokenSystem.__init__\<close> fixes every path of the session. Strings are byte
  strings; a path is a string.
\<close>

type_synonym path = string

record LUKSTokenSystem =
  ramdisk_path :: path
  ramdisk_size :: string
  luks_url :: string
  luks_file :: path
  mount_point :: path
  loop_device :: "string option"

definition init :: LUKSTokenSystem where
  "init = \<lparr> ramdisk_path = ''/tmp/luks_ramdisk'',
            ramdisk_size = ''5M'',
            luks_url = ''https://github.com/GlitchLinux/LUKS-TOKEN/raw/refs/heads/main/LUKS-TOKEN-2MB.img'',
            luks_file = ''/tmp/LUKS-TOKEN-2MB.img'',
            mount_point = ''/tmp/LUKS-TOKEN-2MB'',
            loop_device = None \<rparr>"

section \<open>The operating system as far as the program touches it\<close>

text \<open>
  The commands of the generated shell script and the system calls of the Python methods
  that change the machine. \<open>Dd p bs n\<close> is \<^verbatim>\<open>dd if=/dev/urandom of=p bs=bs count=n\<close>,
  \<open>FindExecDd d bs n\<close> is \<^verbatim>\<open>find d -type f -exec dd if=/dev/urandom of={} bs=bs count=n \;\<close>,
  \<open>OsRemove p\<close> is Python's \<^verbatim>\<open>os.remove(p)\<close>.
\<close>

datatype echo_text = Initiating | Completed

datatype cmd =
    Echo echo_text
  | Mountpoint path
  | Umount path
  | TestE path
  | TestF path
  | CryptsetupClose string
  | Dd path nat nat
  | RmF path
  | FindExecDd path nat nat
  | Rmdir path
  | OsRemove path

text \<open>
  The generated script is kept as its syntax. The body of the shell function
  \<^verbatim>\<open>cleanup_all\<close> is a list of statements: a command, or \<^verbatim>\<open>if c; then cs; fi\<close>.
\<close>

datatype stmt = Simple cmd | IfThen cmd "cmd list"

text \<open>
  The top level of the script, after the function definition: two background subshells
  \<^verbatim>\<open>(sleep n && cleanup_all) &\<close>, each followed by an \<^verbatim>\<open>echo\<close>.
\<close>

datatype top = SleepThenCleanup int | TopEcho int

record destruct_script =
  cleanup_fn :: "stmt list"
  toplevel :: "top list"

text \<open>
  What a regular file holds: bytes written by somebody, \<open>n\<close> bytes read from
  \<^verbatim>\<open>/dev/urandom\<close>, or the text of a destruct script.
\<close>

datatype content = Data string | Urandom nat | ScriptText destruct_script

record sys =
  mounts :: "path list"
  mapper :: "string list"
  files :: "(path \<times> content) list"
  dirs :: "path list"

definition path_under :: "path \<Rightarrow> path \<Rightarrow> bool" where
  "path_under d q = prefix (d @ ''/'') q"

definition exists_file :: "sys \<Rightarrow> path \<Rightarrow> bool" where
  "exists_file s p = (p \<in> set (map fst (files s)))"

definition exists_any :: "sys \<Rightarrow> path \<Rightarrow> bool" where
  "exists_any s p =
     (exists_file s p \<or> p \<in> set (dirs s) \<or> p \<in> set (map (\<lambda>n. ''/dev/mapper/'' @ n) (mapper s)))"

definition detach_tree :: "path \<Rightarrow> sys \<Rightarrow> sys" where
  "detach_tree p s =
     s \<lparr> mounts := removeAll p (mounts s),
         files := filter (\<lambda>(q, c). \<not> path_under p q) (files s),
         dirs := filter (\<lambda>q. \<not> path_under p q) (dirs s) \<rparr>"

definition empty_dir :: "sys \<Rightarrow> path \<Rightarrow> bool" where
  "empty_dir s p =
     (list_all (\<lambda>(q, c). \<not> path_under p q) (files s) \<and> list_all (\<lambda>q. \<not> path_under p q) (dirs s))"

definition overwrite_tree :: "path \<Rightarrow> nat \<Rightarrow> sys \<Rightarrow> sys" where
  "overwrite_tree d n s =
     s \<lparr> files := map (\<lambda>(q, c). if path_under d q then (q, Urandom n) else (q, c)) (files s) \<rparr>"

text \<open>
  One command: its exit status and the machine afterwards. The first argument says which
  commands fail for a reason outside the model (device busy, I/O error); a command that
  fails leaves the machine as it was and returns a non-zero status. A mount point carries
  the files of the filesystem mounted on it, so unmounting takes them out of the tree.
  \<open>dd\<close> opens its output with truncation, so the file holds the random bytes and nothing
  else afterwards; \<open>rm -f\<close> of a missing file succeeds.
\<close>

fun exec_cmd :: "(cmd \<Rightarrow> bool) \<Rightarrow> cmd \<Rightarrow> sys \<Rightarrow> nat \<times> sys" where
  "exec_cmd fl (Echo t) s = (if fl (Echo t) then (1, s) else (0, s))"
| "exec_cmd fl (Mountpoint p) s =
     (if fl (Mountpoint p) then (1, s) else (if p \<in> set (mounts s) then 0 else 32, s))"
| "exec_cmd fl (Umount p) s =
     (if fl (Umount p) then (32, s)
      else if p \<in> set (mounts s) then (0, detach_tree p s) else (32, s))"
| "exec_cmd fl (TestE p) s =
     (if fl (TestE p) then (1, s) else (if exists_any s p then 0 else 1, s))"
| "exec_cmd fl (TestF p) s =
     (if fl (TestF p) then (1, s) else (if exists_file s p then 0 else 1, s))"
| "exec_cmd fl (CryptsetupClose n) s =
     (if fl (CryptsetupClose n) then (5, s)
      else if n \<in> set (mapper s) then (0, s \<lparr> mapper := removeAll n (mapper s) \<rparr>) else (4, s))"
| "exec_cmd fl (Dd p bs n) s =
     (if fl (Dd p bs n) then (1, s)
      else (0, s \<lparr> files := AList.update p (Urandom (bs * n)) (files s) \<rparr>))"
| "exec_cmd fl (RmF p) s =
     (if fl (RmF p) then (1, s)
      else (0, s \<lparr> files := AList.delete p (files s) \<rparr>))"
| "exec_cmd fl (FindExecDd d bs n) s =
     (if fl (FindExecDd d bs n) \<or> d \<notin> set (dirs s) then (1, s)
      else (0, overwrite_tree d (bs * n) s))"
| "exec_cmd fl (Rmdir p) s =
     (if fl (Rmdir p) then (1, s)
      else if p \<in> set (dirs s) \<and> p \<notin> set (mounts s) \<and> empty_dir s p
           then (0, s \<lparr> dirs := removeAll p (dirs s) \<rparr>) else (1, s))"
| "exec_cmd fl (OsRemove p) s =
     (if fl (OsRemove p) \<or> \<not> exists_file s p then (1, s)
      else (0, s \<lparr> files := AList.delete p (files s) \<rparr>))"

section \<open>The generated destruct script\<close>

text \<open>
  The body of the shell function \<^verbatim>\<open>cleanup_all\<close> is a list of statements: a command, or
  \<^verbatim>\<open>if c; then cs; fi\<close>. The script has no \<^verbatim>\<open>set -e\<close>, so a statement list runs every
  statement whatever the statuses are. A run keeps the list of commands executed with
  their statuses.
\<close>

type_synonym event = "cmd \<times> nat"

fun exec_cmds :: "(cmd \<Rightarrow> bool) \<Rightarrow> cmd list \<Rightarrow> sys \<times> event list \<Rightarrow> sys \<times> event list" where
  "exec_cmds fl [] st = st"
| "exec_cmds fl (c # cs) (s, tr) =
     (case exec_cmd fl c s of (rc, s') \<Rightarrow> exec_cmds fl cs (s', tr @ [(c, rc)]))"

fun exec_stmt :: "(cmd \<Rightarrow> bool) \<Rightarrow> stmt \<Rightarrow> sys \<times> event list \<Rightarrow> sys \<times> event list" where
  "exec_stmt fl (Simple c) st = exec_cmds fl [c] st"
| "exec_stmt fl (IfThen c body) (s, tr) =
     (case exec_cmd fl c s of (rc, s') \<Rightarrow>
        if rc = 0 then exec_cmds fl body (s', tr @ [(c, rc)]) else (s', tr @ [(c, rc)]))"

fun exec_stmts :: "(cmd \<Rightarrow> bool) \<Rightarrow> stmt list \<Rightarrow> sys \<times> event list \<Rightarrow> sys \<times> event list" where
  "exec_stmts fl [] st = st"
| "exec_stmts fl (x # xs) st = exec_stmts fl xs (exec_stmt fl x st)"

definition cleanup_all :: "LUKSTokenSystem \<Rightarrow> stmt list" where
  "cleanup_all self =
     [ Simple (Echo Initiating),
       IfThen (Mountpoint (mount_point self)) [Umount (mount_point self)],
       IfThen (TestE ''/dev/mapper/luks_token'') [CryptsetupClose ''luks_token''],
       IfThen (TestF (luks_file self)) [Dd (luks_file self) 1048576 2, RmF (luks_file self)],
       Simple (FindExecDd (ramdisk_path self) 1024 1024),
       Simple (Umount (ramdisk_path self)),
       Simple (Rmdir (ramdisk_path self)),
       Simple (Echo Completed) ]"

definition script_content :: "LUKSTokenSystem \<Rightarrow> int \<Rightarrow> destruct_script" where
  "script_content self timer_seconds =
     (let failsafe_timer = timer_seconds + 180 in
      \<lparr> cleanup_fn = cleanup_all self,
        toplevel = [ SleepThenCleanup timer_seconds, TopEcho timer_seconds,
                     SleepThenCleanup failsafe_timer, TopEcho failsafe_timer ] \<rparr>)"

text \<open>
  One run of \<^verbatim>\<open>cleanup_all\<close>: the machine afterwards and the commands executed. The
  status of a shell function is the status of the last command it executed.
\<close>

definition run_cleanup :: "LUKSTokenSystem \<Rightarrow> (cmd \<Rightarrow> bool) \<Rightarrow> sys \<Rightarrow> sys \<times> event list" where
  "run_cleanup self fl s = exec_stmts fl (cleanup_all self) (s, [])"


definition no_failures :: "cmd \<Rightarrow> bool" where
  "no_failures c = False"




text \<open>
  \<^verbatim>\<open>cleanup_on_exit\<close>, the Python method: \<^verbatim>\<open>subprocess.run(..., check=False)\<close> ignores the
  status of the command and raises only when the program cannot be started (the second
  argument); \<^verbatim>\<open>os.remove\<close> raises when it fails. Every exception ends the method
  (\<^verbatim>\<open>except Exception: pass\<close>).
\<close>

definition cleanup_on_exit ::
  "LUKSTokenSystem \<Rightarrow> (cmd \<Rightarrow> bool) \<Rightarrow> (cmd \<Rightarrow> bool) \<Rightarrow> sys \<Rightarrow> sys \<times> event list" where
  "cleanup_on_exit self not_started fl s =
     (if mount_point self \<in> set (mounts s) \<and> not_started (Umount (mount_point self)) then (s, [])
      else
        let st1 = (if mount_point self \<in> set (mounts s)
                   then exec_cmds fl [Umount (mount_point self)] (s, []) else (s, []))
        in if not_started (CryptsetupClose ''luks_token'') then st1
           else
             let st2 = exec_cmds fl [CryptsetupClose ''luks_token''] st1
             in if exists_any (fst st2) (luks_file self)
                then exec_cmds fl [OsRemove (luks_file self)] st2 else st2)"

text \<open>
  The property of a run that the specification asks for: every removal of the file \<open>p\<close>
  comes directly after a \<open>dd\<close> from \<^verbatim>\<open>/dev/urandom\<close> onto \<open>p\<close>.
\<close>

fun removes :: "path \<Rightarrow> cmd \<Rightarrow> bool" where
  "removes p (RmF q) = (q = p)"
| "removes p (OsRemove q) = (q = p)"
| "removes p c = False"

fun overwrites :: "path \<Rightarrow> cmd \<Rightarrow> bool" where
  "overwrites p (Dd q bs n) = (q = p)"
| "overwrites p c = False"

fun shredded_before_removed :: "path \<Rightarrow> bool \<Rightarrow> cmd list \<Rightarrow> bool" where
  "shredded_before_removed p just_overwritten [] = True"
| "shredded_before_removed p just_overwritten (c # cs) =
     ((removes p c \<longrightarrow> just_overwritten) \<and> shredded_before_removed p (overwrites p c) cs)"

section \<open>When the script runs: two timers\<close>

text \<open>
  \<^verbatim>\<open>bash\<close> starts every \<^verbatim>\<open>( ... ) &\<close> of the top level as a process of its own and goes
  on to the next line without waiting, so all timers start when the script starts. A
  timer is the process of one subshell: it sleeps, then calls the function.
\<close>

record timer =
  pid :: nat
  sleep_for :: int
  action :: "stmt list"

fun spawn :: "top list \<Rightarrow> stmt list \<Rightarrow> nat \<Rightarrow> timer list" where
  "spawn [] fn k = []"
| "spawn (SleepThenCleanup d # ts) fn k =
     \<lparr> pid = k, sleep_for = d, action = fn \<rparr> # spawn ts fn (Suc k)"
| "spawn (TopEcho d # ts) fn k = spawn ts fn k"

definition bash :: "destruct_script \<Rightarrow> timer list" where
  "bash sc = spawn (toplevel sc) (cleanup_fn sc) 1"

text \<open>
  The processes of a started script: the seconds since the start, the timers still
  asleep, the machine, and which timer ran the cleanup when. A timer can be killed while
  it sleeps; time passes in steps. \<^verbatim>\<open>sleep\<close> refuses a negative duration, and then
  \<^verbatim>\<open>&&\<close> skips the cleanup.
\<close>

record processes =
  clock :: int
  asleep :: "timer list"
  disk :: sys
  fired :: "(int \<times> nat) list"

datatype happening = Kill nat | Wait nat

definition start_script :: "destruct_script \<Rightarrow> sys \<Rightarrow> processes" where
  "start_script sc s = \<lparr> clock = 0, asleep = bash sc, disk = s, fired = [] \<rparr>"

definition wake :: "(cmd \<Rightarrow> bool) \<Rightarrow> timer \<Rightarrow> processes \<Rightarrow> processes" where
  "wake fl j P =
     (if sleep_for j < 0 then P
      else P \<lparr> disk := fst (exec_stmts fl (action j) (disk P, [])),
               fired := fired P @ [(sleep_for j, pid j)] \<rparr>)"

fun happen :: "(cmd \<Rightarrow> bool) \<Rightarrow> happening \<Rightarrow> processes \<Rightarrow> processes" where
  "happen fl (Kill p) P = P \<lparr> asleep := filter (\<lambda>j. pid j \<noteq> p) (asleep P) \<rparr>"
| "happen fl (Wait dt) P =
     (let t = clock P + int dt;
          due = sort_key sleep_for (filter (\<lambda>j. sleep_for j \<le> t) (asleep P))
      in fold (wake fl) due
           (P \<lparr> clock := t, asleep := filter (\<lambda>j. \<not> sleep_for j \<le> t) (asleep P) \<rparr>))"

fun happen_all :: "(cmd \<Rightarrow> bool) \<Rightarrow> happening list \<Rightarrow> processes \<Rightarrow> processes" where
  "happen_all fl [] P = P"
| "happen_all fl (h # hs) P = happen_all fl hs (happen fl h P)"

section \<open>The interactive session\<close>

text \<open>
  A Python method either returns or raises. \<open>OSError\<close> stands for every exception that
  \<^verbatim>\<open>except Exception\<close> catches and that the methods do not name.
\<close>

datatype exc = KeyboardInterrupt | SystemExit int | EOFError | OSError

text \<open>
  What the operator does at a prompt: a line, or Ctrl-C. When the list is used up the
  terminal is at end of input, and \<^verbatim>\<open>input\<close> and \<^verbatim>\<open>getpass\<close> raise \<open>EOFError\<close>.
\<close>

datatype inp = Line string | CtrlC

text \<open>Every \<^verbatim>\<open>print\<close> and every prompt of the program.\<close>

datatype msg =
    Banner | RootRequired
  | CreatingRamdisk | RamdiskCreated | RamdiskFailed
  | Downloading | Progress int | Downloaded | DownloadFailed
  | TimerMenu | TimerPrompt | Selected string | InvalidTimerChoice | Cancelled
  | ScriptCreated | ScriptFailed
  | TimersActivated | TimerStartFailed
  | MountingVolume | PassphrasePrompt nat nat | DeviceOpened | VolumeMounted
  | OpenFailed | MaxAttempts | MountFailed
  | Ready int
  | FileMenu | FilePrompt | InvalidFileChoice | Contents string content
  | FileNotFound string | ReadError | AnotherPrompt
  | SessionEnded | Unexpected

text \<open>A subprocess as Python starts it: the argument list, and what is written to its standard input.\<close>

record call =
  argv :: "string list"
  stdin_data :: "string option"

record world =
  machine :: sys
  keyboard :: "inp list"
  out :: "msg list"
  calls :: "call list"
  timers :: "timer list"

text \<open>
  What the session does not decide: the user id, whether directories can be made, how
  the external programs end, what the download delivers, how a float operation rounds, and
  the files inside the encrypted volume.
\<close>

datatype proc_result = Exited nat | NotStarted

datatype fetch_outcome = Complete content | Failed "content option" | Interrupted

record env =
  euid :: nat
  makedirs_ok :: "path \<Rightarrow> bool"
  mount_tmpfs :: proc_result
  fetch :: fetch_outcome
  hook_calls :: nat
  chunk :: int
  content_length :: int
  float_round :: "rat \<Rightarrow> rat"
  write_ok :: bool
  cryptsetup_open :: "string \<Rightarrow> proc_result"
  mount_volume :: proc_result
  popen_ok :: bool
  volume :: "(string \<times> content) list"

definition say :: "msg \<Rightarrow> world \<Rightarrow> world" where
  "say m w = w \<lparr> out := out w @ [m] \<rparr>"

definition check_root :: "env \<Rightarrow> world \<Rightarrow> (exc + unit) \<times> world" where
  "check_root e w = (if euid e \<noteq> 0 then (Inl (SystemExit 1), say RootRequired w) else (Inr (), w))"

definition mount_at :: "path \<Rightarrow> (path \<times> content) list \<Rightarrow> sys \<Rightarrow> sys" where
  "mount_at p fs s =
     s \<lparr> mounts := List.insert p (mounts s),
         files := filter (\<lambda>(q, c). \<not> path_under p q) (files s) @ map (\<lambda>(n, c). (p @ ''/'' @ n, c)) fs,
         dirs := filter (\<lambda>q. \<not> path_under p q) (dirs s) \<rparr>"

definition makedirs :: "path \<Rightarrow> sys \<Rightarrow> sys" where
  "makedirs p s = s \<lparr> dirs := List.insert p (dirs s) \<rparr>"

definition create_ramdisk :: "LUKSTokenSystem \<Rightarrow> env \<Rightarrow> world \<Rightarrow> (exc + bool) \<times> world" where
  "create_ramdisk self e w =
     (let w1 = say CreatingRamdisk w in
      if \<not> makedirs_ok e (ramdisk_path self) then (Inl OSError, w1)
      else
        let w2 = w1 \<lparr> machine := makedirs (ramdisk_path self) (machine w1),
                      calls := calls w1 @
                        [\<lparr> argv = [''mount'', ''-t'', ''tmpfs'', ''-o'', ''size='' @ ramdisk_size self,
                                    ''tmpfs'', ramdisk_path self],
                           stdin_data = None \<rparr>] \<rparr>
        in (case mount_tmpfs e of
              NotStarted \<Rightarrow> (Inl OSError, w2)
            | Exited rc \<Rightarrow>
                (if rc = 0
                 then (Inr True, say RamdiskCreated
                         (w2 \<lparr> machine := mount_at (ramdisk_path self) [] (machine w2) \<rparr>))
                 else (Inr False, say RamdiskFailed w2))))"

text \<open>
  \<^verbatim>\<open>progress_hook\<close>. The percentage is a float: the value of each float operation is
  the exact one rounded by \<open>fl\<close>. \<open>format1\<close> is \<^verbatim>\<open>{percent:.1f}\<close>, the value in tenths,
  rounded to the nearest and to the even one at a tie.
\<close>

definition format1 :: "rat \<Rightarrow> int" where
  "format1 x =
     (let y = x * 10; f = \<lfloor>y\<rfloor> in
      if y - of_int f < 1 / 2 then f
      else if 1 / 2 < y - of_int f then f + 1
      else if even f then f else f + 1)"

definition progress_hook :: "(rat \<Rightarrow> rat) \<Rightarrow> int \<Rightarrow> int \<Rightarrow> int \<Rightarrow> msg list" where
  "progress_hook fl block_num block_size total_size =
     (let downloaded = block_num * block_size in
      if total_size > 0
      then [Progress (format1 (fl (fl (of_int downloaded / of_int total_size) * 100)))]
      else [])"

text \<open>
  \<^verbatim>\<open>urllib.request.urlretrieve\<close> calls the hook once when the connection is open and once
  after each block, with the block number counting up from 0 and the same block size and
  total size every time; the total size is -1 when the server does not give one.
\<close>

definition urlretrieve_reports :: "env \<Rightarrow> msg list" where
  "urlretrieve_reports e =
     concat (map (\<lambda>k. progress_hook (float_round e) (int k) (chunk e) (content_length e))
                 [0 ..< hook_calls e])"

definition download_luks_volume :: "LUKSTokenSystem \<Rightarrow> env \<Rightarrow> world \<Rightarrow> (exc + bool) \<times> world" where
  "download_luks_volume self e w =
     (let w1 = say Downloading w;
          w2 = w1 \<lparr> out := out w1 @ urlretrieve_reports e \<rparr>
      in case fetch e of
           Complete c \<Rightarrow>
             (Inr True, say Downloaded
                (w2 \<lparr> machine := (machine w2) \<lparr> files := AList.update (luks_file self) c (files (machine w2)) \<rparr> \<rparr>))
         | Failed None \<Rightarrow> (Inr False, say DownloadFailed w2)
         | Failed (Some c) \<Rightarrow>
             (Inr False, say DownloadFailed
                (w2 \<lparr> machine := (machine w2) \<lparr> files := AList.update (luks_file self) c (files (machine w2)) \<rparr> \<rparr>))
         | Interrupted \<Rightarrow> (Inl KeyboardInterrupt, w2))"

text \<open>\<^verbatim>\<open>str.strip\<close> and \<^verbatim>\<open>str.lower\<close> on ASCII.\<close>

definition is_space :: "char \<Rightarrow> bool" where
  "is_space c = (of_char c \<in> {9, 10, 11, 12, 13, 28, 29, 30, 31, 32 :: nat})"

definition strip :: "string \<Rightarrow> string" where
  "strip s = rev (dropWhile is_space (rev (dropWhile is_space s)))"

definition lower_char :: "char \<Rightarrow> char" where
  "lower_char c = (let n = of_char c :: nat in if 65 \<le> n \<and> n \<le> 90 then char_of (n + 32) else c)"

definition lower :: "string \<Rightarrow> string" where
  "lower s = map lower_char s"

definition timer_map :: "(string \<times> int \<times> string) list" where
  "timer_map = [(''1'', (60, ''1 minute'')), (''2'', (300, ''5 minutes'')), (''3'', (600, ''10 minutes''))]"

text \<open>
  The \<^verbatim>\<open>while True\<close> of \<^verbatim>\<open>get_timer_selection\<close>, over the operator's inputs. Ctrl-C is
  \<^verbatim>\<open>sys.exit(1)\<close>; \<open>EOFError\<close> is not caught here.
\<close>

fun timer_loop :: "inp list \<Rightarrow> msg list \<Rightarrow> (exc + int) \<times> inp list \<times> msg list" where
  "timer_loop [] printed = (Inl EOFError, [], printed @ [TimerPrompt])"
| "timer_loop (CtrlC # ks) printed = (Inl (SystemExit 1), ks, printed @ [TimerPrompt, Cancelled])"
| "timer_loop (Line l # ks) printed =
     (case map_of timer_map (strip l) of
        Some (seconds, description) \<Rightarrow> (Inr seconds, ks, printed @ [TimerPrompt, Selected description])
      | None \<Rightarrow> timer_loop ks (printed @ [TimerPrompt, InvalidTimerChoice]))"

definition get_timer_selection :: "world \<Rightarrow> (exc + int) \<times> world" where
  "get_timer_selection w =
     (case timer_loop (keyboard w) (out w @ [TimerMenu]) of
        (r, ks, printed) \<Rightarrow> (r, w \<lparr> keyboard := ks, out := printed \<rparr>))"

definition create_destruct_script ::
  "LUKSTokenSystem \<Rightarrow> env \<Rightarrow> int \<Rightarrow> world \<Rightarrow> (exc + path option) \<times> world" where
  "create_destruct_script self e timer_seconds w =
     (let destruct_script = ramdisk_path self @ ''/dd-destruct.sh'' in
      if write_ok e
      then (Inr (Some destruct_script), say ScriptCreated
              (w \<lparr> machine := (machine w)
                     \<lparr> files := AList.update destruct_script
                                  (ScriptText (script_content self timer_seconds))
                                  (files (machine w)) \<rparr> \<rparr>))
      else (Inr None, say ScriptFailed w))"

definition start_destruct_timer ::
  "LUKSTokenSystem \<Rightarrow> env \<Rightarrow> path \<Rightarrow> world \<Rightarrow> (exc + bool) \<times> world" where
  "start_destruct_timer self e script_path w =
     (if popen_ok e
      then (Inr True, say TimersActivated
              (w \<lparr> calls := calls w @
                      [\<lparr> argv = [''/bin/sh'', ''-c'', ''nohup bash '' @ script_path @ '' > /dev/null 2>&1 &''],
                         stdin_data = None \<rparr>],
                    timers := timers w @
                      (case map_of (files (machine w)) script_path of
                         Some (ScriptText sc) \<Rightarrow> bash sc
                       | _ \<Rightarrow> []) \<rparr>))
      else (Inr False, say TimerStartFailed w))"

text \<open>
  The \<^verbatim>\<open>for attempt in range(max_attempts)\<close> of \<^verbatim>\<open>mount_luks_volume\<close>. \<open>unlock_call\<close> is
  the \<^verbatim>\<open>Popen\<close> of \<^verbatim>\<open>cryptsetup open\<close> together with what \<^verbatim>\<open>communicate\<close> writes to its
  standard input, \<open>mount_call\<close> the \<^verbatim>\<open>subprocess.run\<close> of \<^verbatim>\<open>mount\<close>; strings are byte
  strings, so \<^verbatim>\<open>encode\<close> changes nothing. A loop that ends without \<^verbatim>\<open>return\<close> gives \<^verbatim>\<open>None\<close>, which
  the caller tests with \<^verbatim>\<open>not\<close>, as it does \<^verbatim>\<open>False\<close>.
\<close>

definition max_attempts :: nat where
  "max_attempts = 3"

definition encode :: "string \<Rightarrow> string" where
  "encode s = s"

definition unlock_call :: "LUKSTokenSystem \<Rightarrow> string \<Rightarrow> call" where
  "unlock_call self passphrase =
     \<lparr> argv = [''cryptsetup'', ''open'', luks_file self, ''luks_token''],
       stdin_data = Some (encode passphrase) \<rparr>"

definition mount_call :: "LUKSTokenSystem \<Rightarrow> call" where
  "mount_call self =
     \<lparr> argv = [''mount'', ''/dev/mapper/luks_token'', mount_point self], stdin_data = None \<rparr>"

fun attempts :: "LUKSTokenSystem \<Rightarrow> env \<Rightarrow> nat list \<Rightarrow> world \<Rightarrow> (exc + bool) \<times> world" where
  "attempts self e [] w = (Inr False, w)"
| "attempts self e (attempt # rest) w =
     (let w1 = say (PassphrasePrompt (attempt + 1) max_attempts) w in
      case keyboard w1 of
        [] \<Rightarrow> (Inl EOFError, w1)
      | CtrlC # ks \<Rightarrow> (Inr False, say Cancelled (w1 \<lparr> keyboard := ks \<rparr>))
      | Line passphrase # ks \<Rightarrow>
          (let w2 = w1 \<lparr> keyboard := ks, calls := calls w1 @ [unlock_call self passphrase] \<rparr>
           in case cryptsetup_open e passphrase of
                NotStarted \<Rightarrow> (Inl OSError, w1 \<lparr> keyboard := ks \<rparr>)
              | Exited returncode \<Rightarrow>
                  (if returncode = 0
                   then
                     (let w3 = say DeviceOpened
                                 (w2 \<lparr> machine := (machine w2)
                                         \<lparr> mapper := List.insert ''luks_token'' (mapper (machine w2)) \<rparr> \<rparr>);
                          w4 = w3 \<lparr> calls := calls w3 @ [mount_call self] \<rparr>
                      in (case mount_volume e of
                            NotStarted \<Rightarrow> (Inl OSError, w3)
                          | Exited rc \<Rightarrow>
                              (if rc = 0
                               then (Inr True, say VolumeMounted
                                       (w4 \<lparr> machine := mount_at (mount_point self) (volume e) (machine w4) \<rparr>))
                               else (Inr False, say MountFailed w4))))
                   else
                     (let w3 = say OpenFailed w2 in
                      if attempt = max_attempts - 1 then (Inr False, say MaxAttempts w3)
                      else attempts self e rest w3))))"

definition mount_luks_volume :: "LUKSTokenSystem \<Rightarrow> env \<Rightarrow> world \<Rightarrow> (exc + bool) \<times> world" where
  "mount_luks_volume self e w =
     (let w1 = say MountingVolume w in
      if \<not> makedirs_ok e (mount_point self) then (Inl OSError, w1)
      else attempts self e [0 ..< max_attempts]
             (w1 \<lparr> machine := makedirs (mount_point self) (machine w1) \<rparr>))"

text \<open>
  \<^verbatim>\<open>display_file_menu\<close>: what showing one file prints, and the \<^verbatim>\<open>while True\<close> over the
  operator's inputs. Ctrl-C at either prompt is \<^verbatim>\<open>break\<close>.
\<close>

definition show_file :: "sys \<Rightarrow> path \<Rightarrow> string \<Rightarrow> msg list" where
  "show_file m file_path file_name =
     (if exists_any m file_path
      then (case map_of (files m) file_path of
              Some (Data d) \<Rightarrow> [Contents file_name (Data d)]
            | Some (ScriptText sc) \<Rightarrow> [Contents file_name (ScriptText sc)]
            | _ \<Rightarrow> [ReadError])
      else [FileNotFound file_name])"

fun menu_loop ::
  "LUKSTokenSystem \<Rightarrow> sys \<Rightarrow> inp list \<Rightarrow> msg list \<Rightarrow> (exc + unit) \<times> inp list \<times> msg list" where
  "menu_loop self m [] printed = (Inl EOFError, [], printed @ [FilePrompt])"
| "menu_loop self m (CtrlC # ks) printed = (Inr (), ks, printed @ [FilePrompt, Cancelled])"
| "menu_loop self m (Line l # ks) printed =
     (let choice = strip l in
      if choice = ''1'' \<or> choice = ''2''
      then
        let file_name = (if choice = ''1'' then ''Notes.txt'' else ''GitHub Token'');
            file_path = mount_point self @ ''/'' @ file_name;
            printed1 = printed @ [FilePrompt] @ show_file m file_path file_name @ [AnotherPrompt]
        in (case ks of
              [] \<Rightarrow> (Inl EOFError, [], printed1)
            | CtrlC # ks' \<Rightarrow> (Inr (), ks', printed1 @ [Cancelled])
            | Line another # ks' \<Rightarrow>
                (if lower (strip another) \<noteq> ''y'' then (Inr (), ks', printed1)
                 else menu_loop self m ks' printed1))
      else menu_loop self m ks (printed @ [FilePrompt, InvalidFileChoice]))"

definition display_file_menu :: "LUKSTokenSystem \<Rightarrow> world \<Rightarrow> (exc + unit) \<times> world" where
  "display_file_menu self w =
     (case menu_loop self (machine w) (keyboard w) (out w @ [FileMenu]) of
        (r, ks, printed) \<Rightarrow> (r, w \<lparr> keyboard := ks, out := printed \<rparr>))"

text \<open>
  \<^verbatim>\<open>run\<close>: the steps in order, each failure a \<^verbatim>\<open>return False\<close>; then the handlers of its
  \<^verbatim>\<open>try\<close>, which let only \<open>SystemExit\<close> through.
\<close>

definition steps :: "LUKSTokenSystem \<Rightarrow> env \<Rightarrow> world \<Rightarrow> (exc + bool) \<times> world" where
  "steps self e w0 =
     (case check_root e (say Banner w0) of
        (Inl x, w) \<Rightarrow> (Inl x, w)
      | (Inr u, w) \<Rightarrow>
     (case create_ramdisk self e w of
        (Inl x, w) \<Rightarrow> (Inl x, w)
      | (Inr ok, w) \<Rightarrow> if \<not> ok then (Inr False, w) else
     (case download_luks_volume self e w of
        (Inl x, w) \<Rightarrow> (Inl x, w)
      | (Inr ok, w) \<Rightarrow> if \<not> ok then (Inr False, w) else
     (case get_timer_selection w of
        (Inl x, w) \<Rightarrow> (Inl x, w)
      | (Inr timer_seconds, w) \<Rightarrow>
     (case create_destruct_script self e timer_seconds w of
        (Inl x, w) \<Rightarrow> (Inl x, w)
      | (Inr None, w) \<Rightarrow> (Inr False, w)
      | (Inr (Some script_path), w) \<Rightarrow>
     (case mount_luks_volume self e w of
        (Inl x, w) \<Rightarrow> (Inl x, w)
      | (Inr ok, w) \<Rightarrow> if \<not> ok then (Inr False, w) else
     (case start_destruct_timer self e script_path w of
        (Inl x, w) \<Rightarrow> (Inl x, w)
      | (Inr ok, w) \<Rightarrow> if \<not> ok then (Inr False, w) else
     (case display_file_menu self (say (Ready (timer_seconds div 60)) w) of
        (Inl x, w) \<Rightarrow> (Inl x, w)
      | (Inr u, w) \<Rightarrow> (Inr True, say SessionEnded w)))))))))"

definition run :: "LUKSTokenSystem \<Rightarrow> env \<Rightarrow> world \<Rightarrow> (exc + bool) \<times> world" where
  "run self e w0 =
     (case steps self e w0 of
        (Inl KeyboardInterrupt, w) \<Rightarrow> (Inr False, say Cancelled w)
      | (Inl (SystemExit code), w) \<Rightarrow> (Inl (SystemExit code), w)
      | (Inl EOFError, w) \<Rightarrow> (Inr False, say Unexpected w)
      | (Inl OSError, w) \<Rightarrow> (Inr False, say Unexpected w)
      | (Inr success, w) \<Rightarrow> (Inr success, w))"

text \<open>
  \<^verbatim>\<open>main\<close>: the exit status of the process. The session starts with nothing printed, no
  subprocess started and no timer running.
\<close>

definition boot :: "sys \<Rightarrow> inp list \<Rightarrow> world" where
  "boot s ks = \<lparr> machine = s, keyboard = ks, out = [], calls = [], timers = [] \<rparr>"

definition main :: "env \<Rightarrow> world \<Rightarrow> int \<times> world" where
  "main e w0 =
     (case run init e w0 of
        (Inl (SystemExit code), w) \<Rightarrow> (code, w)
      | (Inl x, w) \<Rightarrow> (1, w)
      | (Inr success, w) \<Rightarrow> (if success then 0 else 1, w))"


text \<open>
  A machine as a session leaves it when the menu is up: the RAM disk with the script on
  it, the image, the unlocked volume mounted.
\<close>

definition example_machine :: sys where
  "example_machine =
     \<lparr> mounts = [''/tmp/luks_ramdisk'', ''/tmp/LUKS-TOKEN-2MB''],
       mapper = [''luks_token''],
       files = [(''/tmp/LUKS-TOKEN-2MB.img'', Data ''LUKS''),
                (''/tmp/luks_ramdisk/dd-destruct.sh'', ScriptText (script_content init 60)),
                (''/tmp/LUKS-TOKEN-2MB/Notes.txt'', Data ''note''),
                (''/etc/hostname'', Data ''host'')],
       dirs = [''/tmp'', ''/tmp/luks_ramdisk'', ''/tmp/LUKS-TOKEN-2MB'', ''/etc''] \<rparr>"

text \<open>The passphrase prompts among the printed messages, in the order printed.\<close>

definition passphrase_prompts :: "msg list \<Rightarrow> (nat \<times> nat) list" where
  "passphrase_prompts ms = concat (map (\<lambda>m. case m of PassphrasePrompt a b \<Rightarrow> [(a, b)] | _ \<Rightarrow> []) ms)"

text \<open>
  Messages that are neither a passphrase prompt nor one of the three marks
  \<open>MaxAttempts\<close>, \<open>FileMenu\<close>, \<open>SessionEnded\<close>.
\<close>

definition silent :: "msg list \<Rightarrow> bool" where
  "silent ms = (SessionEnded \<notin> set ms \<and> MaxAttempts \<notin> set ms \<and> FileMenu \<notin> set ms
                \<and> passphrase_prompts ms = [])"

text \<open>
  Inputs that leave the menu loop waiting at one of its two prompts: wrong choices, and
  files looked at with the answer \<open>y\<close> afterwards, possibly followed by one last choice.
\<close>

fun menu_waits :: "inp list \<Rightarrow> bool" where
  "menu_waits [] = True"
| "menu_waits (CtrlC # ks) = False"
| "menu_waits (Line l # ks) =
     (if strip l = ''1'' \<or> strip l = ''2''
      then (case ks of
              [] \<Rightarrow> True
            | CtrlC # ks' \<Rightarrow> False
            | Line another # ks' \<Rightarrow> lower (strip another) = ''y'' \<and> menu_waits ks')
      else menu_waits ks)"

text \<open>An environment in which every step before the passphrase prompt succeeds.\<close>

definition setup_succeeds :: "env \<Rightarrow> bool" where
  "setup_succeeds e =
     (euid e = 0 \<and> makedirs_ok e (ramdisk_path init) \<and> mount_tmpfs e = Exited 0
      \<and> (case fetch e of Complete c \<Rightarrow> True | _ \<Rightarrow> False)
      \<and> write_ok e \<and> makedirs_ok e (mount_point init))"

text \<open>The percentages among the printed messages, in tenths, in the order printed.\<close>

definition reported :: "msg list \<Rightarrow> int list" where
  "reported ms = concat (map (\<lambda>m. case m of Progress p \<Rightarrow> [p] | _ \<Rightarrow> []) ms)"

text \<open>
  An environment in which every step succeeds, with a download of three blocks of a file
  of known size, exact float arithmetic, and the passphrase \<open>secret\<close>.
\<close>

definition example_env :: env where
  "example_env =
     \<lparr> euid = 0, makedirs_ok = (\<lambda>p. True), mount_tmpfs = Exited 0,
       fetch = Complete (Data ''LUKS''), hook_calls = 4, chunk = 8192, content_length = 20000,
       float_round = (\<lambda>x. x), write_ok = True,
       cryptsetup_open = (\<lambda>p. if p = ''secret'' then Exited 0 else Exited 2),
       mount_volume = Exited 0, popen_ok = True,
       volume = [(''Notes.txt'', Data ''note'')] \<rparr>"

definition empty_machine :: sys where
  "empty_machine = \<lparr> mounts = [], mapper = [], files = [], dirs = [''/tmp''] \<rparr>"

section \<open>The cleanup action\<close>

subsection \<open>The fixed paths do not contain one another\<close>

lemma init_paths:
  "\<not> path_under (mount_point init) ''/dev/mapper/luks_token''"
  "\<not> path_under (mount_point init) (luks_file init)"
  "\<not> path_under (mount_point init) (ramdisk_path init)"
  "\<not> path_under (ramdisk_path init) (luks_file init)"
  "\<not> path_under (ramdisk_path init) (mount_point init)"
  "luks_file init \<noteq> ramdisk_path init"
  "mount_point init \<noteq> ramdisk_path init"
  "ramdisk_path init \<noteq> mount_point init"
  by (simp_all add: path_under_def init_def)

lemma exists_file_detach:
  "exists_file (detach_tree d s) p = (exists_file s p \<and> \<not> path_under d p)"
  by (auto simp: exists_file_def detach_tree_def)

lemma exists_any_detach:
  "\<not> path_under d p \<Longrightarrow> exists_any (detach_tree d s) p = exists_any s p"
  by (auto simp: exists_any_def exists_file_def detach_tree_def)

subsection \<open>Which commands a run executes\<close>

text \<open>A command list runs to its end whatever the commands return.\<close>

lemma cmds_attempted:
  "map fst (snd (exec_cmds fl cs st)) = map fst (snd st) @ cs"
  by (induction cs arbitrary: st) (auto split: prod.splits)

lemma if_attempted:
  "map fst (snd (exec_stmt fl (IfThen c body) st)) =
     map fst (snd st) @ [c] @ (if fst (exec_cmd fl c (fst st)) = 0 then body else [])"
  by (cases st) (auto simp: cmds_attempted split: prod.splits)

lemma simple_attempted:
  "map fst (snd (exec_stmt fl (Simple c) st)) = map fst (snd st) @ [c]"
  by (cases st) (auto simp: cmds_attempted split: prod.splits)

lemma unmount_keeps_any:
  "\<not> path_under p q \<Longrightarrow>
   exists_any (fst (exec_stmt fl (IfThen (Mountpoint p) [Umount p]) st)) q = exists_any (fst st) q"
  by (cases st) (simp add: exists_any_detach)

lemma unmount_keeps_file:
  "\<not> path_under p q \<Longrightarrow>
   exists_file (fst (exec_stmt fl (IfThen (Mountpoint p) [Umount p]) st)) q = exists_file (fst st) q"
  by (cases st) (simp add: exists_file_detach)

lemma close_keeps_file:
  "exists_file (fst (exec_stmt fl (IfThen (TestE d) [CryptsetupClose n]) st)) q = exists_file (fst st) q"
  by (cases st) (simp add: exists_file_def)

lemma echo_keeps:
  "fst (exec_stmt fl (Simple (Echo t)) st) = fst st"
  by (cases st) simp

lemma test_status:
  "(fst (exec_cmd fl (Mountpoint p) s) = 0) = (\<not> fl (Mountpoint p) \<and> p \<in> set (mounts s))"
  "(fst (exec_cmd fl (TestE p) s) = 0) = (\<not> fl (TestE p) \<and> exists_any s p)"
  "(fst (exec_cmd fl (TestF p) s) = 0) = (\<not> fl (TestF p) \<and> exists_file s p)"
  by simp_all

lemma cleanup_trace:
  "map fst (snd (run_cleanup init fl s)) =
     [Echo Initiating, Mountpoint (mount_point init)]
     @ (if \<not> fl (Mountpoint (mount_point init)) \<and> mount_point init \<in> set (mounts s)
        then [Umount (mount_point init)] else [])
     @ [TestE ''/dev/mapper/luks_token'']
     @ (if \<not> fl (TestE ''/dev/mapper/luks_token'') \<and> exists_any s ''/dev/mapper/luks_token''
        then [CryptsetupClose ''luks_token''] else [])
     @ [TestF (luks_file init)]
     @ (if \<not> fl (TestF (luks_file init)) \<and> exists_file s (luks_file init)
        then [Dd (luks_file init) 1048576 2, RmF (luks_file init)] else [])
     @ [FindExecDd (ramdisk_path init) 1024 1024, Umount (ramdisk_path init),
        Rmdir (ramdisk_path init), Echo Completed]"
  unfolding run_cleanup_def cleanup_all_def exec_stmts.simps
  apply (simp only: if_attempted simple_attempted test_status unmount_keeps_any unmount_keeps_file
      close_keeps_file echo_keeps fst_conv snd_conv init_paths not_False_eq_True)
  apply (simp del: exec_cmd.simps exec_stmt.simps exec_cmds.simps)
  done

text \<open>
  C5. The cleanup action runs its steps in one fixed order: the test and the unmount of
  the volume's mount point, the test and the close of the mapping, the test, the
  overwrite and the removal of the image, the overwrite of the files of the RAM disk, the
  unmount of the RAM disk and the removal of its directory. Whichever commands fail
  (\<open>fl\<close> is any set of failing commands), every later step is still executed: the list
  of executed commands depends on the three tests alone, and the three tests see the
  machine as it was at the start.
\<close>

theorem cleanup_order_never_aborts:
  "map fst (snd (run_cleanup init fl s)) =
     [Echo Initiating, Mountpoint (mount_point init)]
     @ (if \<not> fl (Mountpoint (mount_point init)) \<and> mount_point init \<in> set (mounts s)
        then [Umount (mount_point init)] else [])
     @ [TestE ''/dev/mapper/luks_token'']
     @ (if \<not> fl (TestE ''/dev/mapper/luks_token'') \<and> exists_any s ''/dev/mapper/luks_token''
        then [CryptsetupClose ''luks_token''] else [])
     @ [TestF (luks_file init)]
     @ (if \<not> fl (TestF (luks_file init)) \<and> exists_file s (luks_file init)
        then [Dd (luks_file init) 1048576 2, RmF (luks_file init)] else [])
     @ [FindExecDd (ramdisk_path init) 1024 1024, Umount (ramdisk_path init),
        Rmdir (ramdisk_path init), Echo Completed]"
  by (rule cleanup_trace)

theorem cleanup_order_never_aborts_witness:
  "map fst (snd (run_cleanup init (\<lambda>c. c = Umount ''/tmp/LUKS-TOKEN-2MB'') example_machine)) =
     [Echo Initiating, Mountpoint ''/tmp/LUKS-TOKEN-2MB'', Umount ''/tmp/LUKS-TOKEN-2MB'',
      TestE ''/dev/mapper/luks_token'', CryptsetupClose ''luks_token'',
      TestF ''/tmp/LUKS-TOKEN-2MB.img'',
      Dd ''/tmp/LUKS-TOKEN-2MB.img'' 1048576 2, RmF ''/tmp/LUKS-TOKEN-2MB.img'',
      FindExecDd ''/tmp/luks_ramdisk'' 1024 1024, Umount ''/tmp/luks_ramdisk'',
      Rmdir ''/tmp/luks_ramdisk'', Echo Completed]"
  using cleanup_order_never_aborts [of "\<lambda>c. c = Umount ''/tmp/LUKS-TOKEN-2MB''" example_machine]
  by (simp add: example_machine_def init_def exists_any_def exists_file_def)

subsection \<open>What a run without outside failures leaves\<close>

lemma no_failures_never [simp]: "\<not> no_failures c"
  by (simp add: no_failures_def)


























section \<open>Overwriting before deleting\<close>

text \<open>
  The destruct unit removes the image only directly after the \<open>dd\<close> from
  \<^verbatim>\<open>/dev/urandom\<close> onto it, in every run.
\<close>

lemma destruct_unit_shreds_image:
  "shredded_before_removed (luks_file init) False (map fst (snd (run_cleanup init fl s)))"
  by (simp add: cleanup_trace init_paths)

text \<open>
  C1. Every deletion of the image is preceded by an overwrite with random data. The
  destruct unit does so (\<open>destruct_unit_shreds_image\<close>); \<^verbatim>\<open>cleanup_on_exit\<close> does not. On
  a machine that holds the image, with every command succeeding, \<^verbatim>\<open>cleanup_on_exit\<close>
  unmounts, closes the mapping and removes the image with \<^verbatim>\<open>os.remove\<close>; no overwrite
  comes before the removal, and the image is gone afterwards.
\<close>

theorem cleanup_on_exit_plain_delete:
  "exists_file example_machine (luks_file init)
   \<and> map fst (snd (cleanup_on_exit init (\<lambda>c. False) no_failures example_machine)) =
       [Umount ''/tmp/LUKS-TOKEN-2MB'', CryptsetupClose ''luks_token'', OsRemove ''/tmp/LUKS-TOKEN-2MB.img'']
   \<and> map snd (snd (cleanup_on_exit init (\<lambda>c. False) no_failures example_machine)) = [0, 0, 0]
   \<and> \<not> exists_file (fst (cleanup_on_exit init (\<lambda>c. False) no_failures example_machine)) (luks_file init)
   \<and> \<not> shredded_before_removed (luks_file init) False
          (map fst (snd (cleanup_on_exit init (\<lambda>c. False) no_failures example_machine)))"
  by (simp add: cleanup_on_exit_def example_machine_def init_def exists_file_def exists_any_def
      detach_tree_def path_under_def no_failures_def Let_def)

section \<open>The two deadlines\<close>

lemma timer_loop_values:
  "timer_loop ks printed = (Inr t, ks', printed') \<Longrightarrow> t = 60 \<or> t = 300 \<or> t = 600"
  by (induction ks printed rule: timer_loop.induct)
     (auto simp: timer_map_def split: option.splits if_splits)

text \<open>
  C2. Whatever the operator answers, a timeout that \<^verbatim>\<open>get_timer_selection\<close> returns is 60,
  300 or 600 seconds, and the script that \<^verbatim>\<open>create_destruct_script\<close> writes for it starts
  two timers: the primary one with that timeout and the failsafe one with that timeout
  plus exactly 180 seconds.
\<close>

theorem failsafe_is_primary_plus_180:
  assumes "get_timer_selection w = (Inr timer_seconds, w1)"
      and "create_destruct_script init e timer_seconds w1 = (Inr (Some script_path), w2)"
  shows "(timer_seconds = 60 \<or> timer_seconds = 300 \<or> timer_seconds = 600)
       \<and> map_of (files (machine w2)) script_path = Some (ScriptText (script_content init timer_seconds))
       \<and> map sleep_for (bash (script_content init timer_seconds)) = [timer_seconds, timer_seconds + 180]"
proof -
  from assms(1) have "timer_seconds = 60 \<or> timer_seconds = 300 \<or> timer_seconds = 600"
    by (auto simp: get_timer_selection_def split: prod.splits dest: timer_loop_values)
  moreover from assms(2)
  have "map_of (files (machine w2)) script_path = Some (ScriptText (script_content init timer_seconds))"
    by (auto simp: create_destruct_script_def Let_def say_def AList.update_conv' split: if_splits)
  moreover have "map sleep_for (bash (script_content init timer_seconds)) = [timer_seconds, timer_seconds + 180]"
    by (simp add: bash_def script_content_def Let_def)
  ultimately show ?thesis by blast
qed

theorem failsafe_is_primary_plus_180_witness:
  "fst (get_timer_selection (boot empty_machine [Line ''7'', Line '' 2 ''])) = Inr 300
   \<and> map sleep_for (bash (script_content init 300)) = [300, 480]
   \<and> map_of (files (machine (snd (create_destruct_script init example_env 300
               (snd (get_timer_selection (boot empty_machine [Line ''7'', Line '' 2 '']))))))) 
         ''/tmp/luks_ramdisk/dd-destruct.sh''
       = Some (ScriptText (script_content init 300))"
proof -
  have a: "get_timer_selection (boot empty_machine [Line ''7'', Line '' 2 '']) =
             (Inr 300, snd (get_timer_selection (boot empty_machine [Line ''7'', Line '' 2 ''])))"
    by (simp add: get_timer_selection_def boot_def timer_map_def strip_def is_space_def)
  have b: "create_destruct_script init example_env 300
              (snd (get_timer_selection (boot empty_machine [Line ''7'', Line '' 2 ''])))
           = (Inr (Some ''/tmp/luks_ramdisk/dd-destruct.sh''),
              snd (create_destruct_script init example_env 300
                (snd (get_timer_selection (boot empty_machine [Line ''7'', Line '' 2 ''])))))"
    by (simp add: create_destruct_script_def example_env_def init_def Let_def)
  from a have f: "fst (get_timer_selection (boot empty_machine [Line ''7'', Line '' 2 ''])) = Inr 300"
    by (metis fst_conv)
  from failsafe_is_primary_plus_180 [OF a b] f show ?thesis
    by simp
qed

section \<open>The failsafe timer does not depend on the primary one\<close>

text \<open>
  C3. The script starts both timers when it starts, as two processes, the second one not
  under any condition on the first: \<^verbatim>\<open>start_destruct_timer\<close> leaves the primary timer
  (process 1, sleeping \<open>t\<close> seconds) and the failsafe timer (process 2, sleeping
  \<open>t + 180\<close> seconds), both with the whole of \<^verbatim>\<open>cleanup_all\<close> as their action. When the
  primary process is killed after \<open>k < t\<close> seconds, the failsafe timer is the only one
  that fires, at second \<open>t + 180\<close>, and the machine is then as one run of the cleanup
  action leaves it, whichever commands fail. When nothing is killed, both fire, at
  \<open>t\<close> and at \<open>t + 180\<close>.
\<close>

theorem failsafe_independent_of_primary:
  assumes "int k < t" and "int k + int r = t + 180"
      and "map_of (files (machine w)) script_path = Some (ScriptText (script_content self t))"
      and "start_destruct_timer self e script_path w = (Inr True, w')"
  shows "timers w' = timers w @
           [\<lparr> pid = 1, sleep_for = t, action = cleanup_all self \<rparr>,
            \<lparr> pid = 2, sleep_for = t + 180, action = cleanup_all self \<rparr>]
       \<and> asleep (start_script (script_content self t) s) =
           [\<lparr> pid = 1, sleep_for = t, action = cleanup_all self \<rparr>,
            \<lparr> pid = 2, sleep_for = t + 180, action = cleanup_all self \<rparr>]
       \<and> fired (happen_all fl [Wait k, Kill 1, Wait r] (start_script (script_content self t) s))
           = [(t + 180, 2)]
       \<and> disk (happen_all fl [Wait k, Kill 1, Wait r] (start_script (script_content self t) s))
           = fst (run_cleanup self fl s)
       \<and> asleep (happen_all fl [Wait k, Kill 1, Wait r] (start_script (script_content self t) s)) = []
       \<and> fired (happen_all fl [Wait (k + r)] (start_script (script_content self t) s))
           = [(t, 1), (t + 180, 2)]"
proof -
  from assms(3,4) have "timers w' = timers w @
           [\<lparr> pid = 1, sleep_for = t, action = cleanup_all self \<rparr>,
            \<lparr> pid = 2, sleep_for = t + 180, action = cleanup_all self \<rparr>]"
    by (auto simp: start_destruct_timer_def say_def bash_def script_content_def Let_def split: if_splits)
  moreover from assms(1,2) have "asleep (start_script (script_content self t) s) =
           [\<lparr> pid = 1, sleep_for = t, action = cleanup_all self \<rparr>,
            \<lparr> pid = 2, sleep_for = t + 180, action = cleanup_all self \<rparr>]
       \<and> fired (happen_all fl [Wait k, Kill 1, Wait r] (start_script (script_content self t) s))
           = [(t + 180, 2)]
       \<and> disk (happen_all fl [Wait k, Kill 1, Wait r] (start_script (script_content self t) s))
           = fst (run_cleanup self fl s)
       \<and> asleep (happen_all fl [Wait k, Kill 1, Wait r] (start_script (script_content self t) s)) = []
       \<and> fired (happen_all fl [Wait (k + r)] (start_script (script_content self t) s))
           = [(t, 1), (t + 180, 2)]"
    by (simp add: start_script_def bash_def script_content_def Let_def wake_def run_cleanup_def)
  ultimately show ?thesis by blast
qed

theorem failsafe_independent_of_primary_witness:
  "int 30 < 60 \<and> int 30 + int 210 = 60 + 180
   \<and> map_of (files (machine (boot example_machine []))) ''/tmp/luks_ramdisk/dd-destruct.sh''
       = Some (ScriptText (script_content init 60))
   \<and> fst (start_destruct_timer init example_env ''/tmp/luks_ramdisk/dd-destruct.sh'' (boot example_machine []))
       = Inr True
   \<and> map sleep_for (timers (snd (start_destruct_timer init example_env ''/tmp/luks_ramdisk/dd-destruct.sh''
                                    (boot example_machine [])))) = [60, 240]
   \<and> fired (happen_all no_failures [Wait 30, Kill 1, Wait 210]
              (start_script (script_content init 60) example_machine)) = [(240, 2)]
   \<and> disk (happen_all no_failures [Wait 30, Kill 1, Wait 210]
              (start_script (script_content init 60) example_machine))
       = fst (run_cleanup init no_failures example_machine)"
proof -
  have a: "int 30 < (60::int)" and b: "int 30 + int 210 = (60::int) + 180"
    by simp_all
  have c: "map_of (files (machine (boot example_machine []))) ''/tmp/luks_ramdisk/dd-destruct.sh''
             = Some (ScriptText (script_content init 60))"
    by (simp add: boot_def example_machine_def)
  have d: "start_destruct_timer init example_env ''/tmp/luks_ramdisk/dd-destruct.sh'' (boot example_machine [])
             = (Inr True, snd (start_destruct_timer init example_env ''/tmp/luks_ramdisk/dd-destruct.sh''
                                 (boot example_machine [])))"
    by (simp add: start_destruct_timer_def example_env_def)
  from d have f: "fst (start_destruct_timer init example_env ''/tmp/luks_ramdisk/dd-destruct.sh''
                         (boot example_machine [])) = Inr True"
    by (metis fst_conv)
  have g: "timers (boot example_machine []) = []"
    by (simp add: boot_def)
  from failsafe_independent_of_primary [OF a b c d, of example_machine no_failures] a b c f g
  show ?thesis
    by (simp del: happen_all.simps)
qed

section \<open>Download progress\<close>

lemma format1_mono:
  assumes "x \<le> y"
  shows "format1 x \<le> format1 y"
proof -
  let ?a = "x * 10" and ?b = "y * 10"
  have ab: "?a \<le> ?b" using assms by simp
  then have fl: "\<lfloor>?a\<rfloor> \<le> \<lfloor>?b\<rfloor>" by (rule floor_mono)
  have lo: "\<lfloor>?b\<rfloor> \<le> format1 y" and hi: "format1 x \<le> \<lfloor>?a\<rfloor> + 1"
    by (auto simp: format1_def Let_def)
  show ?thesis
  proof (cases "\<lfloor>?a\<rfloor> < \<lfloor>?b\<rfloor>")
    case True
    with lo hi show ?thesis by linarith
  next
    case False
    with fl have eq: "\<lfloor>?a\<rfloor> = \<lfloor>?b\<rfloor>" by simp
    with ab show ?thesis
      by (auto simp: format1_def Let_def)
  qed
qed

lemma percent_mono:
  assumes m: "\<And>x y. x \<le> y \<Longrightarrow> fl x \<le> fl y" and c: "0 \<le> bs" and t: "0 < tot" and jk: "j \<le> k"
  shows "format1 (fl (fl (of_int (j * bs) / of_int tot) * 100))
       \<le> format1 (fl (fl (of_int (k * bs) / of_int tot) * 100))"
proof -
  have "j * bs \<le> k * bs" using c jk by (simp add: mult_right_mono)
  then have "(of_int (j * bs) :: rat) \<le> of_int (k * bs)"
    by (simp only: of_int_le_iff)
  moreover have "(0 :: rat) \<le> of_int tot" using t by simp
  ultimately have "(of_int (j * bs) :: rat) / of_int tot \<le> of_int (k * bs) / of_int tot"
    by (rule divide_right_mono)
  then have "fl (of_int (j * bs) / of_int tot) \<le> fl (of_int (k * bs) / of_int tot)"
    by (rule m)
  then have "fl (of_int (j * bs) / of_int tot) * 100 \<le> fl (of_int (k * bs) / of_int tot) * 100"
    by simp
  then have "fl (fl (of_int (j * bs) / of_int tot) * 100) \<le> fl (fl (of_int (k * bs) / of_int tot) * 100)"
    by (rule m)
  then show ?thesis by (rule format1_mono)
qed

lemma reported_append: "reported (xs @ ys) = reported xs @ reported ys"
  by (simp add: reported_def)

lemma reported_progress:
  "reported (map (\<lambda>k. Progress (g k)) xs) = map g xs"
  by (induction xs) (simp_all add: reported_def)

lemma reported_known:
  "0 < content_length e \<Longrightarrow>
   reported (urlretrieve_reports e) =
     map (\<lambda>k. format1 (float_round e (float_round e (of_int (int k * chunk e) / of_int (content_length e)) * 100)))
         [0 ..< hook_calls e]"
  unfolding urlretrieve_reports_def progress_hook_def Let_def
  by (simp add: reported_progress del: of_int_mult of_int_of_nat_eq)

lemma reports_unknown:
  "content_length e \<le> 0 \<Longrightarrow> urlretrieve_reports e = []"
  unfolding urlretrieve_reports_def progress_hook_def Let_def
  by simp

lemma reports_sorted:
  assumes m: "\<And>x y. x \<le> y \<Longrightarrow> float_round e x \<le> float_round e y" and c: "0 \<le> chunk e"
    and t: "0 < content_length e"
  shows "sorted (reported (urlretrieve_reports e))"
proof -
  have "sorted_wrt (\<lambda>j k. j \<le> k) [0 ..< hook_calls e]"
    by (simp add: sorted_wrt_iff_nth_less)
  then have "sorted_wrt (\<lambda>j k.
        format1 (float_round e (float_round e (of_int (int j * chunk e) / of_int (content_length e)) * 100))
      \<le> format1 (float_round e (float_round e (of_int (int k * chunk e) / of_int (content_length e)) * 100)))
      [0 ..< hook_calls e]"
    by (rule sorted_wrt_mono_rel [rotated]) (rule percent_mono [OF m c t], simp_all)
  then show ?thesis
    by (simp add: reported_known [OF t] sorted_map)
qed

lemma download_reports:
  "reported (out (snd (download_luks_volume self e w))) = reported (out w) @ reported (urlretrieve_reports e)"
  by (simp add: download_luks_volume_def Let_def say_def reported_append reported_def
      split: fetch_outcome.splits option.splits)

text \<open>
  C9. The percentages that a download prints are those of the calls of the hook, in
  their order. When the total size is known (positive) they never decrease; when it is
  not, none is printed. Float arithmetic enters through its rounding, which is taken to be
  monotone, as rounding to nearest is; the block size is not negative.
\<close>

theorem progress_monotone:
  assumes "\<And>x y. x \<le> y \<Longrightarrow> float_round e x \<le> float_round e y" and "0 \<le> chunk e"
  shows "reported (out (snd (download_luks_volume self e w)))
           = reported (out w) @ reported (urlretrieve_reports e)
       \<and> (0 < content_length e \<longrightarrow> sorted (reported (urlretrieve_reports e)))
       \<and> (content_length e \<le> 0 \<longrightarrow> urlretrieve_reports e = [])"
  using assms reports_sorted [of e] reports_unknown [of e] download_reports [of self e w]
  by blast

theorem progress_monotone_witness:
  "0 \<le> chunk example_env \<and> 0 < content_length example_env
   \<and> reported (urlretrieve_reports example_env) = [0, 410, 819, 1229]
   \<and> sorted (reported (urlretrieve_reports example_env))
   \<and> reported (out (snd (download_luks_volume init example_env (boot empty_machine []))))
       = [0, 410, 819, 1229]
   \<and> urlretrieve_reports (example_env \<lparr> content_length := -1 \<rparr>) = []"
proof -
  have m: "\<And>x y :: rat. x \<le> y \<Longrightarrow> float_round example_env x \<le> float_round example_env y"
    by (simp add: example_env_def)
  have c: "0 \<le> chunk example_env" and t: "0 < content_length example_env"
    by (simp_all add: example_env_def)
  have m': "\<And>x y :: rat. x \<le> y \<Longrightarrow> float_round (example_env \<lparr> content_length := -1 \<rparr>) x
             \<le> float_round (example_env \<lparr> content_length := -1 \<rparr>) y"
    by (simp add: example_env_def)
  have r: "reported (urlretrieve_reports example_env) = [0, 410, 819, 1229]"
    unfolding urlretrieve_reports_def reported_def progress_hook_def by code_simp
  have o: "reported (out (boot empty_machine [])) = []"
    by (simp add: boot_def reported_def)
  from progress_monotone [of example_env init "boot empty_machine []", OF m c]
       progress_monotone [of "example_env \<lparr> content_length := -1 \<rparr>" init "boot empty_machine []", OF m']
       c t r o
  show ?thesis
    by (simp add: example_env_def)
qed

section \<open>Unlocking the volume\<close>

subsection \<open>One attempt at a time\<close>

lemma range_max_attempts: "[0 ..< max_attempts] = [0, 1, 2]"
  by (simp add: max_attempts_def upt_rec)

lemma range_3: "[0 ..< 3] = [0, 1, 2 :: nat]"
  by (simp add: upt_rec)

lemma say_simps [simp]:
  "machine (say m w) = machine w"
  "keyboard (say m w) = keyboard w"
  "calls (say m w) = calls w"
  "timers (say m w) = timers w"
  "out (say m w) = out w @ [m]"
  by (simp_all add: say_def)

lemma attempts_eof:
  "keyboard w = [] \<Longrightarrow>
   attempts self e (a # rest) w = (Inl EOFError, say (PassphrasePrompt (a + 1) max_attempts) w)"
  by (simp add: Let_def)

lemma attempts_ctrlc:
  "keyboard w = CtrlC # ks \<Longrightarrow>
   attempts self e (a # rest) w =
     (Inr False, say Cancelled (say (PassphrasePrompt (a + 1) max_attempts) w \<lparr> keyboard := ks \<rparr>))"
  by (simp add: Let_def)

lemma attempts_not_started:
  "keyboard w = Line p # ks \<Longrightarrow> cryptsetup_open e p = NotStarted \<Longrightarrow>
   attempts self e (a # rest) w =
     (Inl OSError, say (PassphrasePrompt (a + 1) max_attempts) w \<lparr> keyboard := ks \<rparr>)"
  by (simp add: Let_def)

lemma attempts_wrong:
  "keyboard w = Line p # ks \<Longrightarrow> cryptsetup_open e p = Exited rc \<Longrightarrow> rc \<noteq> 0 \<Longrightarrow>
   attempts self e (a # rest) w =
     (let w3 = say OpenFailed (say (PassphrasePrompt (a + 1) max_attempts) w
                 \<lparr> keyboard := ks, calls := calls w @ [unlock_call self p] \<rparr>)
      in if a = max_attempts - 1 then (Inr False, say MaxAttempts w3)
         else attempts self e rest w3)"
  by (simp add: Let_def)

lemma attempts_right:
  "keyboard w = Line p # ks \<Longrightarrow> cryptsetup_open e p = Exited 0 \<Longrightarrow>
   attempts self e (a # rest) w =
     (let w2 = say (PassphrasePrompt (a + 1) max_attempts) w
                 \<lparr> keyboard := ks, calls := calls w @ [unlock_call self p] \<rparr>;
          w3 = say DeviceOpened
                 (w2 \<lparr> machine := (machine w2) \<lparr> mapper := List.insert ''luks_token'' (mapper (machine w2)) \<rparr> \<rparr>);
          w4 = w3 \<lparr> calls := calls w3 @ [mount_call self] \<rparr>
      in case mount_volume e of
           NotStarted \<Rightarrow> (Inl OSError, w3)
         | Exited rc \<Rightarrow>
             if rc = 0
             then (Inr True, say VolumeMounted
                     (w4 \<lparr> machine := mount_at (mount_point self) (volume e) (machine w4) \<rparr>))
             else (Inr False, say MountFailed w4))"
  by (simp add: Let_def)

lemma attempts_cases:
  obtains (eof) "keyboard w = []"
    | (ctrlc) ks where "keyboard w = CtrlC # ks"
    | (not_started) p ks where "keyboard w = Line p # ks" "cryptsetup_open e p = NotStarted"
    | (right) p ks where "keyboard w = Line p # ks" "cryptsetup_open e p = Exited 0"
    | (wrong) p ks rc where "keyboard w = Line p # ks" "cryptsetup_open e p = Exited rc" "rc \<noteq> 0"
proof (cases "keyboard w")
  case Nil
  then show ?thesis by (rule eof)
next
  case (Cons k ks)
  show ?thesis
  proof (cases k)
    case CtrlC
    with Cons show ?thesis by (auto intro: ctrlc)
  next
    case (Line p)
    show ?thesis
    proof (cases "cryptsetup_open e p")
      case NotStarted
      with Line Cons show ?thesis by (auto intro: not_started)
    next
      case (Exited rc)
      with Line Cons show ?thesis by (cases "rc = 0") (auto intro: right wrong)
    qed
  qed
qed

lemma attempts_calls:
  "attempts self e as w = (r, w') \<Longrightarrow>
   \<exists>cs. calls w' = calls w @ cs \<and>
        (\<forall>c \<in> set cs. (\<exists>p. Line p \<in> set (keyboard w) \<and> c = unlock_call self p) \<or> c = mount_call self)"
proof (induction as arbitrary: w)
  case Nil
  then show ?case by simp
next
  case (Cons a rest)
  show ?case
  proof (cases rule: attempts_cases [where w = w and e = e])
    case eof
    with Cons.prems show ?thesis by (auto simp: attempts_eof)
  next
    case (ctrlc ks)
    with Cons.prems show ?thesis by (auto simp: attempts_ctrlc)
  next
    case (not_started p ks)
    with Cons.prems show ?thesis by (auto simp: attempts_not_started)
  next
    case (right p ks)
    have "calls w' = calls w @ [unlock_call self p] \<or> calls w' = calls w @ [unlock_call self p, mount_call self]"
      using Cons.prems right by (auto simp: attempts_right Let_def split: proc_result.splits if_splits)
    then show ?thesis
    proof
      assume "calls w' = calls w @ [unlock_call self p]"
      then show ?thesis using right(1) by (intro exI [of _ "[unlock_call self p]"]) auto
    next
      assume "calls w' = calls w @ [unlock_call self p, mount_call self]"
      then show ?thesis using right(1)
        by (intro exI [of _ "[unlock_call self p, mount_call self]"]) auto
    qed
  next
    case (wrong p ks rc)
    show ?thesis
    proof (cases "a = max_attempts - 1")
      case True
      with wrong Cons.prems have "calls w' = calls w @ [unlock_call self p]"
        by (auto simp: attempts_wrong Let_def)
      then show ?thesis using wrong(1) by (intro exI [of _ "[unlock_call self p]"]) auto
    next
      case False
      let ?w3 = "say OpenFailed (say (PassphrasePrompt (a + 1) max_attempts) w
                   \<lparr> keyboard := ks, calls := calls w @ [unlock_call self p] \<rparr>)"
      from False wrong Cons.prems have "attempts self e rest ?w3 = (r, w')"
        by (simp add: attempts_wrong Let_def del: attempts.simps)
      from Cons.IH [OF this] obtain cs where
        cs: "calls w' = calls ?w3 @ cs"
        "\<forall>c \<in> set cs. (\<exists>p. Line p \<in> set (keyboard ?w3) \<and> c = unlock_call self p) \<or> c = mount_call self"
        by blast
      have "calls w' = calls w @ (unlock_call self p # cs)"
        using cs(1) by simp
      moreover have "\<forall>c \<in> set (unlock_call self p # cs).
          (\<exists>p. Line p \<in> set (keyboard w) \<and> c = unlock_call self p) \<or> c = mount_call self"
        using cs(2) wrong(1) by auto
      ultimately show ?thesis by blast
    qed
  qed
qed

text \<open>
  C7. Whatever the operator types, every subprocess that \<^verbatim>\<open>mount_luks_volume\<close> starts is
  either the unlock call for a passphrase that was typed, or the mount call. The
  passphrase of an unlock call is what is written to its standard input, and its argument
  list is the same four fixed words for every passphrase: nothing of the passphrase goes
  into an argument list. The mount call gets no input.
\<close>

theorem passphrase_only_on_stdin:
  assumes "mount_luks_volume self e w = (r, w')"
  shows "(\<exists>cs. calls w' = calls w @ cs \<and>
            (\<forall>c \<in> set cs. (\<exists>p. Line p \<in> set (keyboard w) \<and> c = unlock_call self p) \<or> c = mount_call self))
       \<and> (\<forall>p. stdin_data (unlock_call self p) = Some (encode p)
              \<and> argv (unlock_call self p) = [''cryptsetup'', ''open'', luks_file self, ''luks_token''])
       \<and> (\<forall>p q. argv (unlock_call self p) = argv (unlock_call self q))
       \<and> stdin_data (mount_call self) = None"
proof -
  have "\<exists>cs. calls w' = calls w @ cs \<and>
            (\<forall>c \<in> set cs. (\<exists>p. Line p \<in> set (keyboard w) \<and> c = unlock_call self p) \<or> c = mount_call self)"
  proof (cases "makedirs_ok e (mount_point self)")
    case False
    with assms show ?thesis by (auto simp: mount_luks_volume_def Let_def)
  next
    case True
    with assms have "attempts self e [0 ..< max_attempts]
        (say MountingVolume w \<lparr> machine := makedirs (mount_point self) (machine (say MountingVolume w)) \<rparr>) = (r, w')"
      by (simp add: mount_luks_volume_def Let_def)
    from attempts_calls [OF this] show ?thesis by simp
  qed
  then show ?thesis
    by (simp add: unlock_call_def mount_call_def)
qed


theorem passphrase_only_on_stdin_witness:
  "calls (snd (mount_luks_volume init example_env (boot empty_machine [Line ''open'', Line ''secret''])))
     = [unlock_call init ''open'', unlock_call init ''secret'', mount_call init]
   \<and> Line ''open'' \<in> set (keyboard (boot empty_machine [Line ''open'', Line ''secret'']))
   \<and> stdin_data (unlock_call init ''secret'') = Some ''secret''
   \<and> argv (unlock_call init ''secret'') = [''cryptsetup'', ''open'', ''/tmp/LUKS-TOKEN-2MB.img'', ''luks_token'']
   \<and> argv (unlock_call init ''open'') = argv (unlock_call init ''secret'')
   \<and> stdin_data (mount_call init) = None"
proof -
  have c: "calls (snd (mount_luks_volume init example_env (boot empty_machine [Line ''open'', Line ''secret''])))
     = [unlock_call init ''open'', unlock_call init ''secret'', mount_call init]"
    by (simp add: mount_luks_volume_def range_3 example_env_def boot_def Let_def max_attempts_def)
  from passphrase_only_on_stdin [OF surjective_pairing,
      of init example_env "boot empty_machine [Line ''open'', Line ''secret'']"] c
  show ?thesis
    by (simp add: boot_def encode_def init_def)
qed

section \<open>What the session prints\<close>

lemma prompts_append [simp]: "passphrase_prompts (xs @ ys) = passphrase_prompts xs @ passphrase_prompts ys"
  by (simp add: passphrase_prompts_def)

lemma prompts_simps [simp]:
  "passphrase_prompts [] = []"
  "passphrase_prompts (PassphrasePrompt a b # ms) = (a, b) # passphrase_prompts ms"
  by (simp_all add: passphrase_prompts_def)


lemma silent_Nil [simp]: "silent []"
  by (simp add: silent_def)






















section \<open>The exit status\<close>


end
